theory Spec2Isabelle
  imports Complex_Main "HOL-Library.Sublist"
begin

section \<open>Values\<close>

text \<open>
  A float cell of the table is a real number or missing: \<open>None\<close> stands for NaN (pandas'
  missing value), \<open>Some x\<close> for the number \<open>x\<close>. Arithmetic is exact; rounding of IEEE
  doubles and the infinities are outside the model.
\<close>

type_synonym cell = "real option"

section \<open>Strings and the tag pattern\<close>

text \<open>
  A Python \<open>str\<close> is a list of characters. \<open>"Up or Down" in title\<close> is a search for a
  contiguous occurrence.
\<close>

fun str_contains :: "string \<Rightarrow> string \<Rightarrow> bool" where
  "str_contains sub [] = (sub = [])"
| "str_contains sub (c # cs) = (prefix sub (c # cs) \<or> str_contains sub cs)"

text \<open>
  The regular expression class \<open>\w\<close>: letters, digits and the underscore. On characters
  outside ASCII Python asks its Unicode tables; they are the parameter \<open>uni\<close>.
\<close>

definition ascii_word_chars :: string where
  "ascii_word_chars =
     ''abcdefghijklmnopqrstuvwxyzABCDEFGHIJKLMNOPQRSTUVWXYZ0123456789_''"

definition re_w :: "(char \<Rightarrow> bool) \<Rightarrow> char \<Rightarrow> bool" where
  "re_w uni c = (if digit7 c then uni c else c \<in> set ascii_word_chars)"

text \<open>
  \<open>\b\<close> holds at position \<open>i\<close> of \<open>s\<close> when exactly one of the characters before and at
  \<open>i\<close> is a word character; beyond either end of the string there is none.
\<close>

definition is_w_at :: "(char \<Rightarrow> bool) \<Rightarrow> string \<Rightarrow> nat \<Rightarrow> bool" where
  "is_w_at uni s i = (i < length s \<and> re_w uni (s ! i))"

definition word_boundary :: "(char \<Rightarrow> bool) \<Rightarrow> string \<Rightarrow> nat \<Rightarrow> bool" where
  "word_boundary uni s i = ((0 < i \<and> is_w_at uni s (i - 1)) \<noteq> is_w_at uni s i)"

definition match_at :: "string \<Rightarrow> string \<Rightarrow> nat \<Rightarrow> bool" where
  "match_at pat s i = (take (length pat) (drop i s) = pat)"

text \<open>
  \<open>has_tag\<close> (features.py, lines 108--110): \<open>s.str.contains(rf"\b{name}\b", regex=True)\<close>,
  a search for the literal name between two word boundaries, at any position.
\<close>

definition has_tag :: "(char \<Rightarrow> bool) \<Rightarrow> string \<Rightarrow> string \<Rightarrow> bool" where
  "has_tag uni name s =
     list_ex (\<lambda>i. word_boundary uni s i \<and> match_at name s i \<and>
                  word_boundary uni s (i + length name))
       [0 ..< Suc (length s)]"

section \<open>The table\<close>

text \<open>
  One row of the table. The first group of fields are the raw columns the code reads, the
  second the columns it derives. A timestamp is a number of nanoseconds since the epoch,
  \<open>None\<close> is NaT. Columns the code never reads pass through and are left out.
\<close>

record market =
  event_title :: "string option"
  market_question :: "string option"
  market_active :: bool
  market_closed :: bool
  enable_order_book :: bool
  accepting_orders :: bool
  liquidity_num :: cell
  volume_24h :: cell
  bestBid :: cell
  bestAsk :: cell
  market_endDateIso :: "int option"
  market_endDate :: "int option"
  event_endDate :: "int option"
  event_tags_labels :: "string option"
  outcomes_raw :: "string option"
  spread :: cell
  mid_price :: cell
  time_to_resolution_days :: cell
  is_binary_like :: bool
  is_elections :: bool
  is_global_elections :: bool
  is_politics :: bool
  is_crypto :: bool
  is_crypto_prices :: bool
  is_tech :: bool
  is_finance :: bool
  is_sports :: bool
  is_culture :: bool
  domain :: "string option"
  p_true :: cell
  implied_prob :: cell
  edge :: cell
  quality_score :: cell
  screener_score :: cell
  alpha_score :: cell

text \<open>
  A DataFrame: the names of its columns and its rows. A field of a row whose column is not
  in \<open>columns\<close> is never read.
\<close>

record frame =
  columns :: "string set"
  rows :: "market list"

definition has_col :: "frame \<Rightarrow> string \<Rightarrow> bool" where
  "has_col df c = (c \<in> columns df)"

text \<open>\<open>Series.fillna(d)\<close> on one cell.\<close>

definition fillna :: "real \<Rightarrow> cell \<Rightarrow> real" where
  "fillna d v = (case v of None \<Rightarrow> d | Some x \<Rightarrow> x)"

text \<open>\<open>df.get(name, pd.Series(d, index=df.index))\<close> read at one row.\<close>

definition get_col :: "frame \<Rightarrow> string \<Rightarrow> (market \<Rightarrow> cell) \<Rightarrow> cell \<Rightarrow> market \<Rightarrow> cell" where
  "get_col df name field d r = (if has_col df name then field r else d)"

section \<open>Derived features (features.py)\<close>

subsection \<open>Time to resolution, \<open>add_features\<close> lines 24--40\<close>

text \<open>
  The end column is chosen once for the whole table, by the columns the table has
  (\<open>if "market_endDateIso" in df.columns: ... elif ... else: df.get("event_endDate")\<close>).
\<close>

definition end_column :: "frame \<Rightarrow> (market \<Rightarrow> int option) option" where
  "end_column df =
     (if has_col df ''market_endDateIso'' then Some market_endDateIso
      else if has_col df ''market_endDate'' then Some market_endDate
      else if has_col df ''event_endDate'' then Some event_endDate
      else None)"

text \<open>\<open>(end - now).dt.total_seconds() / (60 * 60 * 24)\<close> on one cell; NaT gives NaN.\<close>

definition days_until :: "int \<Rightarrow> int option \<Rightarrow> cell" where
  "days_until now e = (case e of None \<Rightarrow> None
     | Some t \<Rightarrow> Some (real_of_int (t - now) / 1000000000 / (60 * 60 * 24)))"

text \<open>
  \<open>now\<close> is what \<open>pd.Timestamp.utcnow()\<close> returns when \<open>add_features\<close> runs: the reading
  of the clock is an argument of the model.
\<close>

definition add_time_to_resolution :: "int \<Rightarrow> frame \<Rightarrow> frame" where
  "add_time_to_resolution now df =
     df\<lparr>columns := insert ''time_to_resolution_days'' (columns df),
        rows := map (\<lambda>r. r\<lparr>time_to_resolution_days :=
                  (case end_column df of None \<Rightarrow> None
                   | Some end \<Rightarrow> days_until now (end r))\<rparr>) (rows df)\<rparr>"

subsection \<open>Spread and mid price, lines 16--22\<close>

text \<open>
  The difference and the mean are exact here. The program's doubles round: \<open>0.45 - 0.35\<close>
  is a little more than \<open>0.10\<close> there, and exactly \<open>10/100\<close> here.
\<close>

definition cell_op :: "(real \<Rightarrow> real \<Rightarrow> real) \<Rightarrow> cell \<Rightarrow> cell \<Rightarrow> cell" where
  "cell_op f a b = (case a of None \<Rightarrow> None
     | Some x \<Rightarrow> (case b of None \<Rightarrow> None | Some y \<Rightarrow> Some (f x y)))"


subsection \<open>Domain flags and the domain label, \<open>add_domain_flags\<close>\<close>

definition flag_columns :: "string set" where
  "flag_columns = {''is_elections'', ''is_global_elections'', ''is_politics'', ''is_crypto'',
     ''is_crypto_prices'', ''is_tech'', ''is_finance'', ''is_sports'', ''is_culture''}"

text \<open>Lines 93--104: without the tag column every flag is False and nothing else is set.\<close>

definition clear_flags :: "market \<Rightarrow> market" where
  "clear_flags r = r\<lparr>is_elections := False, is_global_elections := False,
     is_politics := False, is_crypto := False, is_crypto_prices := False, is_tech := False,
     is_finance := False, is_sports := False, is_culture := False\<rparr>"

text \<open>Lines 106--120; \<open>s = tags_col.fillna("").astype(str)\<close>.\<close>

definition set_flags :: "(char \<Rightarrow> bool) \<Rightarrow> market \<Rightarrow> market" where
  "set_flags uni r =
     (let s = (case event_tags_labels r of None \<Rightarrow> [] | Some t \<Rightarrow> t) in
      r\<lparr>is_elections := has_tag uni ''Elections'' s,
        is_global_elections := has_tag uni ''Global Elections'' s,
        is_politics := has_tag uni ''Politics'' s,
        is_crypto := has_tag uni ''Crypto'' s,
        is_crypto_prices := has_tag uni ''Crypto Prices'' s,
        is_tech := has_tag uni ''Tech'' s,
        is_finance := has_tag uni ''Finance'' s,
        is_sports := has_tag uni ''Sports'' s,
        is_culture := has_tag uni ''Culture'' s\<rparr>)"

text \<open>Lines 122--142, the body of the loop over the rows.\<close>

definition domain_label :: "market \<Rightarrow> string" where
  "domain_label r =
     (if is_sports r then ''Sports''
      else if is_global_elections r \<or> is_elections r then ''Elections''
      else if is_politics r then ''Politics''
      else if is_crypto_prices r then ''Crypto Prices''
      else if is_crypto r then ''Crypto''
      else if is_tech r then ''Tech''
      else if is_finance r then ''Finance''
      else if is_culture r then ''Culture''
      else ''Other'')"

definition add_domain_flags :: "(char \<Rightarrow> bool) \<Rightarrow> frame \<Rightarrow> frame" where
  "add_domain_flags uni df =
     (if \<not> has_col df ''event_tags_labels''
      then df\<lparr>columns := columns df \<union> flag_columns, rows := map clear_flags (rows df)\<rparr>
      else df\<lparr>columns := insert ''domain'' (columns df \<union> flag_columns),
              rows := map (\<lambda>r. let r' = set_flags uni r
                                in r'\<lparr>domain := Some (domain_label r')\<rparr>) (rows df)\<rparr>)"

subsection \<open>Quality score, \<open>compute_quality_score\<close>\<close>

text \<open>\<open>Series.max()\<close>: NaN on an empty series.\<close>

fun series_max :: "real list \<Rightarrow> cell" where
  "series_max [] = None"
| "series_max (x # xs) = Some (fold max xs x)"

text \<open>
  \<open>np.log1p\<close>. Below \<open>-1\<close> numpy returns NaN; at \<open>-1\<close> it returns \<open>-inf\<close>, for which the
  model has no value: the statements below are about liquidity that is not negative.
\<close>

definition log1p :: "real \<Rightarrow> cell" where
  "log1p x = (if - 1 < x then Some (ln (1 + x)) else None)"

definition liq_filled :: "frame \<Rightarrow> market \<Rightarrow> real" where
  "liq_filled df r = fillna 0 (get_col df ''liquidity_num'' liquidity_num (Some 0) r)"

definition vol_filled :: "frame \<Rightarrow> market \<Rightarrow> real" where
  "vol_filled df r = fillna 0 (get_col df ''volume_24h'' volume_24h (Some 0) r)"

definition max_liq :: "frame \<Rightarrow> cell" where
  "max_liq df = series_max (map (liq_filled df) (rows df))"

definition liq_score :: "frame \<Rightarrow> market \<Rightarrow> cell" where
  "liq_score df r = (case max_liq df of None \<Rightarrow> Some 0
     | Some m \<Rightarrow> if 0 < m
         then cell_op (\<lambda>a b. a / b) (log1p (liq_filled df r)) (log1p m)
         else Some 0)"

definition vol_score :: "frame \<Rightarrow> market \<Rightarrow> real" where
  "vol_score df r = min (vol_filled df r / 1000) 1"

definition spread_score :: "frame \<Rightarrow> market \<Rightarrow> real" where
  "spread_score df r =
     (let spread_safe = max (fillna 1 (get_col df ''spread'' spread None r)) 0
      in 1 - min (spread_safe / (10 / 100)) 1)"

definition time_score :: "frame \<Rightarrow> market \<Rightarrow> real" where
  "time_score df r =
     (let ttr_safe = max (fillna 100 (get_col df ''time_to_resolution_days''
                                          time_to_resolution_days None r)) 0
      in 1 - min (ttr_safe / 100) 1)"

text \<open>The weighted sum of lines 187--192 and the final \<open>score.fillna(0.0)\<close>, at one row.\<close>

definition quality_at :: "frame \<Rightarrow> market \<Rightarrow> cell" where
  "quality_at df r =
     Some (fillna 0
       (cell_op (\<lambda>a b. a + b)
          (cell_op (\<lambda>a b. a * b) (Some (35 / 100)) (liq_score df r))
          (Some (30 / 100 * vol_score df r + 20 / 100 * spread_score df r
                 + 15 / 100 * time_score df r))))"

definition compute_quality_score :: "frame \<Rightarrow> cell list" where
  "compute_quality_score df = map (quality_at df) (rows df)"

section \<open>Alpha score: band functions (pages/3\_Trading\_Screener.py)\<close>

text \<open>\<open>band_liq\<close>, lines 17--28. The first test is \<open>x is None or np.isnan(x)\<close>.\<close>

definition band_liq :: "cell \<Rightarrow> real" where
  "band_liq v = (case v of None \<Rightarrow> 0 | Some x \<Rightarrow>
     if x \<le> 100 then 0
     else if 100 < x \<and> x < 200 then (x - 100) / 100
     else if 200 \<le> x \<and> x \<le> 5000 then 1
     else if 5000 < x \<and> x < 25000 then 1 - (x - 5000) / 20000
     else 0)"

text \<open>\<open>band_vol\<close>, lines 30--41.\<close>

definition band_vol :: "cell \<Rightarrow> real" where
  "band_vol v = (case v of None \<Rightarrow> 0 | Some x \<Rightarrow>
     if x \<le> 10 then 0
     else if 10 < x \<and> x < 50 then (x - 10) / 40
     else if 50 \<le> x \<and> x \<le> 5000 then 1
     else if 5000 < x \<and> x < 50000 then 1 - (x - 5000) / 45000
     else 0)"

text \<open>\<open>band_spread\<close>, lines 43--52.\<close>

definition band_spread :: "cell \<Rightarrow> real" where
  "band_spread v = (case v of None \<Rightarrow> 0 | Some x \<Rightarrow>
     if x \<le> 0 then 0
     else if x < 5 / 1000 then x / (5 / 1000)
     else if 5 / 1000 \<le> x \<and> x \<le> 5 / 100 then 1
     else if 5 / 100 < x \<and> x < 15 / 100 then 1 - (x - 5 / 100) / (10 / 100)
     else 0)"

text \<open>\<open>band_time\<close>, lines 54--63.\<close>

definition band_time :: "cell \<Rightarrow> real" where
  "band_time v = (case v of None \<Rightarrow> 0 | Some x \<Rightarrow>
     if x < 0 then 0
     else if 0 \<le> x \<and> x < 7 then x / 7
     else if 7 \<le> x \<and> x \<le> 60 then 1
     else if 60 < x \<and> x < 120 then 1 - (x - 60) / 60
     else 0)"

text \<open>\<open>dom_mult\<close>, lines 65--83. \<open>str\<close> of a missing value is the text \<open>nan\<close>.\<close>

definition str_of :: "string option \<Rightarrow> string" where
  "str_of v = (case v of None \<Rightarrow> ''nan'' | Some s \<Rightarrow> s)"

definition row_domain :: "frame \<Rightarrow> market \<Rightarrow> string" where
  "row_domain df r = (if has_col df ''domain'' then str_of (domain r) else ''Other'')"

definition row_title :: "frame \<Rightarrow> market \<Rightarrow> string" where
  "row_title df r = (if has_col df ''event_title'' then str_of (event_title r) else [])"

definition dom_mult :: "frame \<Rightarrow> market \<Rightarrow> real" where
  "dom_mult df r =
     (let d = row_domain df r;
          title = row_title df r;
          base = (if d \<in> set [''Elections'', ''Global Elections'', ''Politics''] then 1
                  else if d \<in> set [''Tech'', ''Finance'', ''Crypto''] then 9 / 10
                  else if d \<in> set [''Culture''] then 7 / 10
                  else if d \<in> set [''Sports''] then 4 / 10
                  else 8 / 10)
      in if str_contains ''Up or Down'' title then base * (5 / 10) else base)"

text \<open>Lines 85--99 at one row; \<open>quality = df.get("quality_score", 1.0)\<close>.\<close>

definition alpha_raw :: "frame \<Rightarrow> market \<Rightarrow> real" where
  "alpha_raw df r =
     30 / 100 * band_liq (get_col df ''liquidity_num'' liquidity_num (Some 0) r)
     + 25 / 100 * band_vol (get_col df ''volume_24h'' volume_24h (Some 0) r)
     + 20 / 100 * band_spread (get_col df ''spread'' spread (Some 0) r)
     + 25 / 100 * band_time (get_col df ''time_to_resolution_days''
                               time_to_resolution_days (Some 0) r)"

definition alpha_at :: "frame \<Rightarrow> market \<Rightarrow> cell" where
  "alpha_at df r =
     cell_op (\<lambda>a q. a * q) (Some (alpha_raw df r * dom_mult df r))
       (get_col df ''quality_score'' quality_score (Some 1) r)"

definition compute_alpha_score :: "frame \<Rightarrow> frame" where
  "compute_alpha_score df =
     df\<lparr>columns := insert ''alpha_score'' (columns df),
        rows := map (\<lambda>r. r\<lparr>alpha_score := alpha_at df r\<rparr>) (rows df)\<rparr>"

section \<open>Reference tables and example rows\<close>

text \<open>
  The domain multipliers as the specification lists them: a table from the domain to its
  multiplier, 0.8 for a domain that is not in it, and the factor 0.5 for a title with
  \<open>Up or Down\<close> in it.
\<close>

definition domain_mult_table :: "(string \<times> real) list" where
  "domain_mult_table =
     [(''Elections'', 1), (''Global Elections'', 1), (''Politics'', 1),
      (''Tech'', 9 / 10), (''Finance'', 9 / 10), (''Crypto'', 9 / 10),
      (''Culture'', 7 / 10), (''Sports'', 4 / 10)]"

definition spec_domain_mult :: "string \<Rightarrow> string \<Rightarrow> real" where
  "spec_domain_mult d title =
     (case map_of domain_mult_table d of None \<Rightarrow> 8 / 10 | Some m \<Rightarrow> m)
     * (if str_contains ''Up or Down'' title then 5 / 10 else 1)"

text \<open>A row with every value missing and every flag False, to build examples from.\<close>

definition blank_row :: market where
  "blank_row = \<lparr>event_title = None, market_question = None, market_active = False,
     market_closed = False, enable_order_book = False, accepting_orders = False,
     liquidity_num = None, volume_24h = None, bestBid = None, bestAsk = None,
     market_endDateIso = None, market_endDate = None, event_endDate = None,
     event_tags_labels = None, outcomes_raw = None, spread = None, mid_price = None,
     time_to_resolution_days = None, is_binary_like = False, is_elections = False,
     is_global_elections = False, is_politics = False, is_crypto = False,
     is_crypto_prices = False, is_tech = False, is_finance = False, is_sports = False,
     is_culture = False, domain = None, p_true = None, implied_prob = None, edge = None,
     quality_score = None, screener_score = None, alpha_score = None\<rparr>"

text \<open>
  The priority order of the domain label as the specification lists it: pairs of a test
  and a label, the first pair whose test holds gives the label, \<open>Other\<close> when none holds.
\<close>

definition domain_priority :: "((market \<Rightarrow> bool) \<times> string) list" where
  "domain_priority =
     [(is_sports, ''Sports''),
      (\<lambda>r. is_global_elections r \<or> is_elections r, ''Elections''),
      (is_politics, ''Politics''),
      (is_crypto_prices, ''Crypto Prices''),
      (is_crypto, ''Crypto''),
      (is_tech, ''Tech''),
      (is_finance, ''Finance''),
      (is_culture, ''Culture'')]"

fun first_match :: "(('a \<Rightarrow> bool) \<times> string) list \<Rightarrow> 'a \<Rightarrow> string" where
  "first_match [] r = ''Other''"
| "first_match ((p, l) # ps) r = (if p r then l else first_match ps r)"

text \<open>Example tables: one row with the given tag text; no character outside ASCII counts
  as a word character.\<close>

definition tagged_table :: "string \<Rightarrow> frame" where
  "tagged_table tags =
     \<lparr>columns = {''event_tags_labels''},
      rows = [blank_row\<lparr>event_tags_labels := Some tags\<rparr>]\<rparr>"

definition no_unicode :: "char \<Rightarrow> bool" where
  "no_unicode c = False"

text \<open>An example table for the scores: a liquid row and a row with nothing but zeros.\<close>

definition scored_table :: frame where
  "scored_table =
     \<lparr>columns = {''liquidity_num'', ''volume_24h'', ''spread'', ''time_to_resolution_days''},
      rows = [blank_row\<lparr>liquidity_num := Some 500, volume_24h := Some 200,
                spread := Some (5 / 100), time_to_resolution_days := Some 30\<rparr>,
              blank_row\<lparr>liquidity_num := Some 0, volume_24h := Some 0\<rparr>]\<rparr>"

section \<open>Global filters (filters.py)\<close>

text \<open>
  An exception that leaves the filters: a column that is not in the table, a search text
  that is not a regular expression, or a method call on the scalar default of \<open>df.get\<close>.
\<close>

datatype error = KeyError string | RegexError | AttributeError


text \<open>\<open>df[mask]\<close>: the rows where the mask holds, in their order; the columns stay.\<close>

definition keep :: "(market \<Rightarrow> bool) \<Rightarrow> frame \<Rightarrow> frame" where
  "keep p df = df\<lparr>rows := filter p (rows df)\<rparr>"

text \<open>\<open>df.get(name, default)\<close> for a flag column, read at one row.\<close>

definition get_flag :: "frame \<Rightarrow> string \<Rightarrow> (market \<Rightarrow> bool) \<Rightarrow> bool \<Rightarrow> market \<Rightarrow> bool" where
  "get_flag df name field d r = (if has_col df name then field r else d)"

text \<open>
  Lines 23--28. Each operand of the mask is a column of the table or, when the table has
  no such column, a Python scalar: \<open>True\<close>, \<open>~False\<close> (the integer \<open>-1\<close>), \<open>True\<close>,
  \<open>True\<close>. With at least one column the mask is a boolean series in which a scalar
  operand changes nothing. With no flag column at all the mask is the integer \<open>1\<close>, and
  \<open>df[1]\<close> looks for a column named 1.
\<close>

definition tradeable_mask :: "frame \<Rightarrow> market \<Rightarrow> bool" where
  "tradeable_mask df r =
     (get_flag df ''market_active'' market_active True r \<and>
      \<not> get_flag df ''market_closed'' market_closed False r \<and>
      get_flag df ''enable_order_book'' enable_order_book True r \<and>
      get_flag df ''accepting_orders'' accepting_orders True r)"

definition filter_tradeable :: "frame \<Rightarrow> error + frame" where
  "filter_tradeable df =
     (if has_col df ''market_active'' \<or> has_col df ''market_closed'' \<or>
         has_col df ''enable_order_book'' \<or> has_col df ''accepting_orders''
      then Inr (keep (tradeable_mask df) df)
      else Inl (KeyError ''1''))"



text \<open>Lines 113--122: \<open>if selected_domains: df = df[df["domain"].isin(selected_domains)]\<close>.\<close>

definition isin :: "string option \<Rightarrow> string list \<Rightarrow> bool" where
  "isin v xs = (case v of None \<Rightarrow> False | Some d \<Rightarrow> d \<in> set xs)"

definition filter_domain :: "string list \<Rightarrow> frame \<Rightarrow> frame" where
  "filter_domain selected df =
     (if has_col df ''domain''
      then (if selected \<noteq> [] then keep (\<lambda>r. isin (domain r) selected) df else df)
      else df)"

text \<open>Example tables for the filters.\<close>

definition flagged_table :: frame where
  "flagged_table =
     \<lparr>columns = {''market_active'', ''market_closed''},
      rows = [blank_row\<lparr>market_active := True, market_closed := False,
                event_title := Some ''open''\<rparr>,
              blank_row\<lparr>market_active := True, market_closed := True,
                event_title := Some ''closed''\<rparr>,
              blank_row\<lparr>market_active := False, market_closed := False,
                event_title := Some ''inactive''\<rparr>]\<rparr>"

definition domain_table :: frame where
  "domain_table =
     \<lparr>columns = {''domain''},
      rows = [blank_row\<lparr>domain := Some ''Sports''\<rparr>,
              blank_row\<lparr>domain := Some ''Politics''\<rparr>,
              blank_row\<lparr>domain := Some ''Other''\<rparr>]\<rparr>"

text \<open>
  The resolution time read record by record: of the record's own three end dates, in the
  order \<open>market_endDateIso\<close>, \<open>market_endDate\<close>, \<open>event_endDate\<close>, the first that is
  present; missing when none is. A value counts as present when the table has the column
  and the record's value in it is not missing.
\<close>

definition present :: "frame \<Rightarrow> string \<Rightarrow> (market \<Rightarrow> int option) \<Rightarrow> market \<Rightarrow> int option" where
  "present df name field r = (if has_col df name then field r else None)"

definition per_record_resolution :: "frame \<Rightarrow> market \<Rightarrow> int option" where
  "per_record_resolution df r =
     (case present df ''market_endDateIso'' market_endDateIso r of Some t \<Rightarrow> Some t
      | None \<Rightarrow> (case present df ''market_endDate'' market_endDate r of Some t \<Rightarrow> Some t
         | None \<Rightarrow> present df ''event_endDate'' event_endDate r))"

definition per_record_time_to_resolution :: "int \<Rightarrow> frame \<Rightarrow> market \<Rightarrow> cell" where
  "per_record_time_to_resolution now df r = days_until now (per_record_resolution df r)"

text \<open>
  Example tables with end dates, in nanoseconds: 30 days are 2592000000000000. In the
  first the only row has no \<open>market_endDateIso\<close> but a \<open>market_endDate\<close>, in the second
  each row has a \<open>market_endDateIso\<close>.
\<close>

definition dated_table :: frame where
  "dated_table =
     \<lparr>columns = {''market_endDateIso'', ''market_endDate'', ''event_endDate''},
      rows = [blank_row\<lparr>market_endDateIso := None,
                market_endDate := Some 2592000000000000\<rparr>]\<rparr>"

definition iso_dated_table :: frame where
  "iso_dated_table =
     \<lparr>columns = {''market_endDateIso'', ''market_endDate''},
      rows = [blank_row\<lparr>market_endDateIso := Some 2592000000000000,
                market_endDate := Some 0\<rparr>,
              blank_row\<lparr>market_endDateIso := Some (- 86400000000000)\<rparr>]\<rparr>"

section \<open>The rest of \<open>add_features\<close>\<close>

subsection \<open>\<open>_looks_binary\<close>, features.py lines 62--84\<close>










section \<open>The rest of the global filters\<close>










section \<open>The trading screener (pages/3\_Trading\_Screener.py, \<open>main\<close>)\<close>














section \<open>The normalizer (data\_loader.py, \<open>load_markets\<close> lines 116--141)\<close>








section \<open>One run of the screener page\<close>















section \<open>Properties of the band functions\<close>

lemma band_liq_range: "0 \<le> band_liq v \<and> band_liq v \<le> 1"
  by (cases v) (simp_all add: band_liq_def)

lemma band_vol_range: "0 \<le> band_vol v \<and> band_vol v \<le> 1"
  by (cases v) (simp_all add: band_vol_def)

lemma band_spread_range: "0 \<le> band_spread v \<and> band_spread v \<le> 1"
  by (cases v) (simp_all add: band_spread_def)

lemma band_time_range: "0 \<le> band_time v \<and> band_time v \<le> 1"
  by (cases v) (simp_all add: band_time_def)

text \<open>
  Claim C3. The liquidity band is 0 at 100 and at 25000, 1 at 200 and at 5000, 0 for every
  \<open>x \<le> 100\<close> and every \<open>x \<ge> 25000\<close>, 1 on \<open>[200, 5000]\<close>, and linear on the two ramps:
  between any two points of \<open>[100, 200]\<close> it rises with slope \<open>1/100\<close>, between any two
  points of \<open>[5000, 25000]\<close> it falls with slope \<open>1/20000\<close>; so it is \<open>1/2\<close> at 150 and at
  15000.
\<close>

theorem band_liq_shape:
  "band_liq (Some 100) = 0 \<and> band_liq (Some 200) = 1 \<and>
   band_liq (Some 5000) = 1 \<and> band_liq (Some 25000) = 0 \<and>
   band_liq (Some 150) = 1 / 2 \<and> band_liq (Some 15000) = 1 / 2 \<and>
   (\<forall>x. x \<le> 100 \<longrightarrow> band_liq (Some x) = 0) \<and>
   (\<forall>x. 25000 \<le> x \<longrightarrow> band_liq (Some x) = 0) \<and>
   (\<forall>x. 200 \<le> x \<and> x \<le> 5000 \<longrightarrow> band_liq (Some x) = 1) \<and>
   (\<forall>x y. 100 \<le> x \<and> x \<le> 200 \<and> 100 \<le> y \<and> y \<le> 200 \<longrightarrow>
      band_liq (Some y) - band_liq (Some x) = (y - x) / 100) \<and>
   (\<forall>x y. 5000 \<le> x \<and> x \<le> 25000 \<and> 5000 \<le> y \<and> y \<le> 25000 \<longrightarrow>
      band_liq (Some y) - band_liq (Some x) = - (y - x) / 20000)"
proof (intro conjI allI impI)
  fix x y :: real
  assume "100 \<le> x \<and> x \<le> 200 \<and> 100 \<le> y \<and> y \<le> 200"
  then show "band_liq (Some y) - band_liq (Some x) = (y - x) / 100"
    by (simp add: band_liq_def diff_divide_distrib)
next
  fix x y :: real
  assume "5000 \<le> x \<and> x \<le> 25000 \<and> 5000 \<le> y \<and> y \<le> 25000"
  then show "band_liq (Some y) - band_liq (Some x) = - (y - x) / 20000"
    by (simp add: band_liq_def diff_divide_distrib)
qed (simp_all add: band_liq_def)

theorem band_liq_shape_witness:
  "band_liq (Some 37) = 0 \<and> band_liq (Some 30000) = 0 \<and> band_liq (Some 1234) = 1 \<and>
   band_liq (Some 175) - band_liq (Some 125) = 1 / 2 \<and>
   band_liq (Some 20000) - band_liq (Some 10000) = - (1 / 2)"
proof -
  have lo: "\<forall>x. x \<le> 100 \<longrightarrow> band_liq (Some x) = 0"
    and hi: "\<forall>x. 25000 \<le> x \<longrightarrow> band_liq (Some x) = 0"
    and mid: "\<forall>x. 200 \<le> x \<and> x \<le> 5000 \<longrightarrow> band_liq (Some x) = 1"
    and up: "\<forall>x y. 100 \<le> x \<and> x \<le> 200 \<and> 100 \<le> y \<and> y \<le> 200 \<longrightarrow>
      band_liq (Some y) - band_liq (Some x) = (y - x) / 100"
    and down: "\<forall>x y. 5000 \<le> x \<and> x \<le> 25000 \<and> 5000 \<le> y \<and> y \<le> 25000 \<longrightarrow>
      band_liq (Some y) - band_liq (Some x) = - (y - x) / 20000"
    using band_liq_shape by blast+
  have a: "band_liq (Some 37) = 0" using lo [rule_format, of 37] by simp
  have b: "band_liq (Some 30000) = 0" using hi [rule_format, of 30000] by simp
  have c: "band_liq (Some 1234) = 1" using mid [rule_format, of 1234] by simp
  have d: "band_liq (Some 175) - band_liq (Some 125) = 1 / 2"
    using up [rule_format, of 125 175] by simp
  have e: "band_liq (Some 20000) - band_liq (Some 10000) = - (1 / 2)"
    using down [rule_format, of 10000 20000] by simp
  from a b c d e show ?thesis by blast
qed

section \<open>Properties of the alpha score\<close>

lemma dom_mult_range: "0 < dom_mult df r \<and> dom_mult df r \<le> 1"
  by (simp add: dom_mult_def Let_def)

lemma alpha_raw_range: "0 \<le> alpha_raw df r \<and> alpha_raw df r \<le> 1"
proof -
  let ?a = "band_liq (get_col df ''liquidity_num'' liquidity_num (Some 0) r)"
  let ?b = "band_vol (get_col df ''volume_24h'' volume_24h (Some 0) r)"
  let ?c = "band_spread (get_col df ''spread'' spread (Some 0) r)"
  let ?d = "band_time (get_col df ''time_to_resolution_days''
                         time_to_resolution_days (Some 0) r)"
  have "0 \<le> ?a" "?a \<le> 1" "0 \<le> ?b" "?b \<le> 1" "0 \<le> ?c" "?c \<le> 1" "0 \<le> ?d" "?d \<le> 1"
    using band_liq_range band_vol_range band_spread_range band_time_range by blast+
  then show ?thesis unfolding alpha_raw_def by linarith
qed

lemma alpha_at_range:
  assumes "get_col df ''quality_score'' quality_score (Some 1) r = Some q"
    and "0 \<le> q" and "q \<le> 1"
  shows "\<exists>a. alpha_at df r = Some a \<and> 0 \<le> a \<and> a \<le> 1"
proof -
  have a: "0 \<le> alpha_raw df r" "alpha_raw df r \<le> 1"
    using alpha_raw_range by blast+
  have m: "0 \<le> dom_mult df r" "dom_mult df r \<le> 1"
    using dom_mult_range [of df r] by simp_all
  have am: "0 \<le> alpha_raw df r * dom_mult df r" "alpha_raw df r * dom_mult df r \<le> 1"
    using a m by (simp_all add: mult_le_one)
  have "0 \<le> alpha_raw df r * dom_mult df r * q" "alpha_raw df r * dom_mult df r * q \<le> 1"
    using am assms(2,3) by (simp_all add: mult_le_one)
  then show ?thesis using assms(1) by (simp add: alpha_at_def cell_op_def)
qed

text \<open>
  Claim C7. The domain multiplier of a row is the multiplier the table gives its domain
  (1 for Elections, Global Elections and Politics, 0.9 for Tech, Finance and Crypto, 0.7
  for Culture, 0.4 for Sports, 0.8 for any other domain), times 0.5 when the event title
  contains \<open>Up or Down\<close> in exactly this spelling, whatever the domain.
\<close>

theorem dom_mult_is_table:
  "dom_mult df r = spec_domain_mult (row_domain df r) (row_title df r)"
  by (simp add: dom_mult_def spec_domain_mult_def domain_mult_table_def Let_def)

theorem dom_mult_is_table_witness:
  "dom_mult \<lparr>columns = {''domain'', ''event_title''}, rows = []\<rparr>
     (blank_row\<lparr>domain := Some ''Sports'',
                 event_title := Some ''Bitcoin Up or Down - 5pm''\<rparr>) = 2 / 10 \<and>
   dom_mult \<lparr>columns = {''domain'', ''event_title''}, rows = []\<rparr>
     (blank_row\<lparr>domain := Some ''Sports'',
                 event_title := Some ''Bitcoin up or down - 5pm''\<rparr>) = 4 / 10 \<and>
   dom_mult \<lparr>columns = {''domain'', ''event_title''}, rows = []\<rparr>
     (blank_row\<lparr>domain := Some ''Crypto Prices'',
                 event_title := Some ''Ether Up or Down''\<rparr>) = 4 / 10"
proof -
  let ?df = "\<lparr>columns = {''domain'', ''event_title''}, rows = []\<rparr>"
  have a: "dom_mult ?df (blank_row\<lparr>domain := Some ''Sports'',
             event_title := Some ''Bitcoin Up or Down - 5pm''\<rparr>) = 2 / 10"
    unfolding dom_mult_is_table
    by (simp add: spec_domain_mult_def domain_mult_table_def row_domain_def row_title_def
        has_col_def str_of_def)
  have b: "dom_mult ?df (blank_row\<lparr>domain := Some ''Sports'',
             event_title := Some ''Bitcoin up or down - 5pm''\<rparr>) = 4 / 10"
    unfolding dom_mult_is_table
    by (simp add: spec_domain_mult_def domain_mult_table_def row_domain_def row_title_def
        has_col_def str_of_def)
  have c: "dom_mult ?df (blank_row\<lparr>domain := Some ''Crypto Prices'',
             event_title := Some ''Ether Up or Down''\<rparr>) = 4 / 10"
    unfolding dom_mult_is_table
    by (simp add: spec_domain_mult_def domain_mult_table_def row_domain_def row_title_def
        has_col_def str_of_def)
  from a b c show ?thesis by blast
qed

text \<open>
  Claim C10. For a row whose quality score is a number in \<open>[0, 1]\<close> (the value of its
  \<open>quality_score\<close> column, or 1 when the table has no such column), the alpha score that
  \<open>compute_alpha_score\<close> writes into the row is a number in \<open>[0, 1]\<close>: each band is in
  \<open>[0, 1]\<close>, the band weights add up to 1, and the domain multiplier is at most 1.
\<close>

theorem alpha_score_range:
  assumes "i < length (rows df)"
    and "get_col df ''quality_score'' quality_score (Some 1) (rows df ! i) = Some q"
    and "0 \<le> q" and "q \<le> 1"
  shows "\<exists>a. alpha_score (rows (compute_alpha_score df) ! i) = Some a \<and> 0 \<le> a \<and> a \<le> 1"
  using assms alpha_at_range [of df "rows df ! i" q]
  by (simp add: compute_alpha_score_def)

theorem alpha_score_range_witness:
  "\<exists>a. alpha_score (rows (compute_alpha_score
      \<lparr>columns = {''liquidity_num'', ''volume_24h'', ''spread'', ''quality_score''},
       rows = [blank_row\<lparr>liquidity_num := Some 500, volume_24h := Some 200,
                 spread := Some (5 / 100), quality_score := Some (7 / 10)\<rparr>]\<rparr>) ! 0) = Some a
     \<and> 0 \<le> a \<and> a \<le> 1"
  by (rule alpha_score_range [where q = "7 / 10"]) (simp_all add: get_col_def has_col_def)

section \<open>Properties of the domain classifier\<close>

lemma match_at_append:
  "match_at (p @ q) s i \<Longrightarrow> match_at p s i \<and> match_at q s (i + length p)"
proof -
  assume m: "match_at (p @ q) s i"
  have split: "take (length p + length q) (drop i s) =
        take (length p) (drop i s) @ take (length q) (drop (i + length p) s)"
    by (simp add: take_add add.commute)
  from m have eq: "take (length p) (drop i s) @ take (length q) (drop (i + length p) s) = p @ q"
    unfolding match_at_def using split by simp
  then have "length (take (length p) (drop i s)) + length (take (length q) (drop (i + length p) s))
      = length p + length q"
    by (metis length_append)
  then have "length (take (length p) (drop i s)) = length p" by simp
  with eq show ?thesis unfolding match_at_def by simp
qed

lemma match_at_bound: "match_at p s i \<Longrightarrow> p \<noteq> [] \<Longrightarrow> i + length p \<le> length s"
proof -
  assume m: "match_at p s i" and ne: "p \<noteq> []"
  from m have "length (take (length p) (drop i s)) = length p"
    unfolding match_at_def by simp
  then have "min (length p) (length s - i) = length p" by simp
  then have "length p \<le> length s - i" by simp
  moreover from ne have "0 < length p" by simp
  ultimately show ?thesis by linarith
qed

lemma match_at_nth: "match_at p s i \<Longrightarrow> k < length p \<Longrightarrow> s ! (i + k) = p ! k"
proof -
  assume m: "match_at p s i" and k: "k < length p"
  from k have "p \<noteq> []" by auto
  with m have b: "i + length p \<le> length s" by (rule match_at_bound)
  have "p ! k = take (length p) (drop i s) ! k" using m unfolding match_at_def by simp
  also have "\<dots> = drop i s ! k" using k by simp
  also have "\<dots> = s ! (i + k)" using b k by simp
  finally show ?thesis by simp
qed

lemma has_tagI:
  "i \<le> length s \<Longrightarrow> word_boundary uni s i \<Longrightarrow> match_at name s i \<Longrightarrow>
   word_boundary uni s (i + length name) \<Longrightarrow> has_tag uni name s"
  unfolding has_tag_def list_ex_iff by (auto intro!: bexI [of _ i])

lemma has_tagE:
  assumes "has_tag uni name s"
  obtains i where "i \<le> length s" "word_boundary uni s i" "match_at name s i"
    "word_boundary uni s (i + length name)"
proof -
  from assms obtain i where r: "i \<in> set [0 ..< Suc (length s)]"
    and p: "word_boundary uni s i" "match_at name s i"
      "word_boundary uni s (i + length name)"
    unfolding has_tag_def list_ex_iff by blast
  from r have "i \<le> length s" by auto
  with p that show thesis by blast
qed

lemma w_space: "\<not> re_w uni CHR '' ''"
  by (simp add: re_w_def ascii_word_chars_def)

lemma w_o: "re_w uni CHR ''o''"
  by (simp add: re_w_def ascii_word_chars_def)

lemma w_E: "re_w uni CHR ''E''"
  by (simp add: re_w_def ascii_word_chars_def)

lemma tag_lengths:
  "length ''Crypto'' = 6" "length '' Prices'' = 7" "length ''Global '' = 7"
  "length ''Elections'' = 9"
  by simp_all

lemma crypto_prices_crypto:
  assumes "has_tag uni (''Crypto'' @ '' Prices'') s"
  shows "has_tag uni ''Crypto'' s"
proof -
  from assms obtain i where i: "i \<le> length s" and b0: "word_boundary uni s i"
    and m: "match_at (''Crypto'' @ '' Prices'') s i"
    by (rule has_tagE)
  from match_at_append [OF m]
  have m1: "match_at ''Crypto'' s i" and m2: "match_at '' Prices'' s (i + 6)"
    unfolding tag_lengths by blast+
  have o: "s ! (i + 5) = CHR ''o''" using match_at_nth [OF m1, of 5] by simp
  have sp: "s ! (i + 6) = CHR '' ''" using match_at_nth [OF m2, of 0] by simp
  have len: "i + 6 + 7 \<le> length s"
    using match_at_bound [OF m2] unfolding tag_lengths by simp
  have w5: "is_w_at uni s (i + 5)"
    unfolding is_w_at_def o using len w_o by simp
  have w6: "\<not> is_w_at uni s (i + 6)"
    unfolding is_w_at_def sp using w_space by simp
  have "word_boundary uni s (i + 6) = (is_w_at uni s (i + 5) \<noteq> is_w_at uni s (i + 6))"
    by (simp add: word_boundary_def add.commute)
  with w5 w6 have "word_boundary uni s (i + length ''Crypto'')"
    unfolding tag_lengths by blast
  with i b0 m1 show ?thesis by (rule has_tagI)
qed

lemma global_elections_elections:
  assumes "has_tag uni (''Global '' @ ''Elections'') s"
  shows "has_tag uni ''Elections'' s"
proof -
  from assms obtain i where i: "i \<le> length s"
    and m: "match_at (''Global '' @ ''Elections'') s i"
    and b1: "word_boundary uni s (i + length (''Global '' @ ''Elections''))"
    by (rule has_tagE)
  from match_at_append [OF m]
  have m1: "match_at ''Global '' s i" and m2: "match_at ''Elections'' s (i + 7)"
    unfolding tag_lengths by blast+
  have sp: "s ! (i + 6) = CHR '' ''" using match_at_nth [OF m1, of 6] by simp
  have e: "s ! (i + 7) = CHR ''E''" using match_at_nth [OF m2, of 0] by simp
  have len: "i + 7 + 9 \<le> length s"
    using match_at_bound [OF m2] unfolding tag_lengths by simp
  have w6: "\<not> is_w_at uni s (i + 6)"
    unfolding is_w_at_def sp using w_space by simp
  have w7: "is_w_at uni s (i + 7)"
    unfolding is_w_at_def e using len w_E by simp
  have "word_boundary uni s (i + 7) = (is_w_at uni s (i + 6) \<noteq> is_w_at uni s (i + 7))"
    by (simp add: word_boundary_def add.commute)
  with w6 w7 have b7: "word_boundary uni s (i + 7)" by blast
  have b16: "word_boundary uni s (i + 7 + length ''Elections'')"
    using b1 unfolding length_append tag_lengths by (simp add: add.assoc)
  have "i + 7 \<le> length s" using len by simp
  then show ?thesis using b7 m2 b16 by (rule has_tagI)
qed

lemma domain_label_first_match: "domain_label r = first_match domain_priority r"
  by (simp add: domain_label_def domain_priority_def)

lemma add_domain_flags_row:
  assumes "has_col df ''event_tags_labels''"
    and "r \<in> set (rows (add_domain_flags uni df))"
  obtains r0 where "r0 \<in> set (rows df)"
    and "r = (set_flags uni r0)\<lparr>domain := Some (domain_label (set_flags uni r0))\<rparr>"
  using assms by (auto simp: add_domain_flags_def Let_def)

lemma set_flags_sel:
  "is_crypto (set_flags uni r) =
     has_tag uni ''Crypto'' (case event_tags_labels r of None \<Rightarrow> [] | Some t \<Rightarrow> t)"
  "is_crypto_prices (set_flags uni r) =
     has_tag uni ''Crypto Prices'' (case event_tags_labels r of None \<Rightarrow> [] | Some t \<Rightarrow> t)"
  "is_elections (set_flags uni r) =
     has_tag uni ''Elections'' (case event_tags_labels r of None \<Rightarrow> [] | Some t \<Rightarrow> t)"
  "is_global_elections (set_flags uni r) =
     has_tag uni ''Global Elections'' (case event_tags_labels r of None \<Rightarrow> [] | Some t \<Rightarrow> t)"
  "is_sports (set_flags uni r) =
     has_tag uni ''Sports'' (case event_tags_labels r of None \<Rightarrow> [] | Some t \<Rightarrow> t)"
  "is_politics (set_flags uni r) =
     has_tag uni ''Politics'' (case event_tags_labels r of None \<Rightarrow> [] | Some t \<Rightarrow> t)"
  by (simp_all add: set_flags_def Let_def)

text \<open>
  Claim C1. In a table that has the tag column, the domain label of every row is the label
  of the first test of the priority order Sports, Global Elections or Elections
  (\<open>Elections\<close>), Politics, Crypto Prices, Crypto, Tech, Finance, Culture that holds of
  the row's flags, and \<open>Other\<close> when none holds; a row with \<open>is_sports\<close> and
  \<open>is_politics\<close> is labelled \<open>Sports\<close>.
\<close>

theorem domain_by_priority:
  assumes "has_col df ''event_tags_labels''"
    and "r \<in> set (rows (add_domain_flags uni df))"
  shows "domain r = Some (first_match domain_priority r) \<and>
         (is_sports r \<and> is_politics r \<longrightarrow> domain r = Some ''Sports'')"
proof -
  from assms obtain r0 where
    r: "r = (set_flags uni r0)\<lparr>domain := Some (domain_label (set_flags uni r0))\<rparr>"
    by (rule add_domain_flags_row)
  have "domain_label r = domain_label (set_flags uni r0)"
    unfolding r by (simp add: domain_label_def)
  then have d: "domain r = Some (domain_label r)" unfolding r by simp
  then have "domain r = Some (first_match domain_priority r)"
    by (simp add: domain_label_first_match)
  moreover have "domain r = Some ''Sports''" if "is_sports r"
    using d that by (simp add: domain_label_def)
  ultimately show ?thesis by blast
qed

lemma tagged_sports: "has_tag no_unicode ''Sports'' ''Politics|Sports''"
  by code_simp

lemma tagged_politics: "has_tag no_unicode ''Politics'' ''Politics|Sports''"
  by code_simp

theorem domain_by_priority_witness:
  "domain (hd (rows (add_domain_flags no_unicode (tagged_table ''Politics|Sports''))))
     = Some ''Sports''"
proof -
  let ?df = "tagged_table ''Politics|Sports''"
  let ?r = "hd (rows (add_domain_flags no_unicode ?df))"
  have c: "has_col ?df ''event_tags_labels''"
    by (simp add: tagged_table_def has_col_def)
  have m: "?r \<in> set (rows (add_domain_flags no_unicode ?df))"
    by (simp add: add_domain_flags_def tagged_table_def has_col_def Let_def)
  have e: "?r = (set_flags no_unicode (blank_row\<lparr>event_tags_labels := Some ''Politics|Sports''\<rparr>))
       \<lparr>domain := Some (domain_label (set_flags no_unicode
           (blank_row\<lparr>event_tags_labels := Some ''Politics|Sports''\<rparr>)))\<rparr>"
    by (simp add: add_domain_flags_def tagged_table_def has_col_def Let_def)
  have s: "is_sports ?r" unfolding e by (simp add: set_flags_sel tagged_sports)
  have p: "is_politics ?r" unfolding e by (simp add: set_flags_sel tagged_politics)
  from domain_by_priority [OF c m] s p show ?thesis by blast
qed

text \<open>
  Claim C9. In every row that \<open>add_domain_flags\<close> returns, \<open>is_crypto_prices\<close> implies
  \<open>is_crypto\<close> and \<open>is_global_elections\<close> implies \<open>is_elections\<close>: where the two-word
  name matches between word boundaries, the one-word name does too.
\<close>

theorem tag_flags_nested:
  assumes "r \<in> set (rows (add_domain_flags uni df))"
  shows "(is_crypto_prices r \<longrightarrow> is_crypto r) \<and>
         (is_global_elections r \<longrightarrow> is_elections r)"
proof (cases "has_col df ''event_tags_labels''")
  case False
  with assms show ?thesis by (auto simp: add_domain_flags_def clear_flags_def)
next
  case True
  from True assms obtain r0 where
    r: "r = (set_flags uni r0)\<lparr>domain := Some (domain_label (set_flags uni r0))\<rparr>"
    by (rule add_domain_flags_row)
  have a: "''Crypto Prices'' = ''Crypto'' @ '' Prices''"
    and b: "''Global Elections'' = ''Global '' @ ''Elections''" by simp_all
  show ?thesis
    unfolding r using crypto_prices_crypto global_elections_elections
    by (simp add: set_flags_sel a b del: append.simps)
qed

lemma tagged_crypto_prices: "has_tag no_unicode ''Crypto Prices'' ''Crypto Prices|Bitcoin''"
  by code_simp

lemma tagged_global_elections:
  "has_tag no_unicode ''Global Elections'' ''World|Global Elections''"
  by code_simp

theorem tag_flags_nested_witness:
  "is_crypto_prices (hd (rows (add_domain_flags no_unicode
      (tagged_table ''Crypto Prices|Bitcoin'')))) \<and>
   is_crypto (hd (rows (add_domain_flags no_unicode
      (tagged_table ''Crypto Prices|Bitcoin'')))) \<and>
   is_global_elections (hd (rows (add_domain_flags no_unicode
      (tagged_table ''World|Global Elections'')))) \<and>
   is_elections (hd (rows (add_domain_flags no_unicode
      (tagged_table ''World|Global Elections''))))"
proof -
  let ?r1 = "hd (rows (add_domain_flags no_unicode (tagged_table ''Crypto Prices|Bitcoin'')))"
  let ?r2 = "hd (rows (add_domain_flags no_unicode (tagged_table ''World|Global Elections'')))"
  have m1: "?r1 \<in> set (rows (add_domain_flags no_unicode
      (tagged_table ''Crypto Prices|Bitcoin'')))"
    by (simp add: add_domain_flags_def tagged_table_def has_col_def Let_def)
  have m2: "?r2 \<in> set (rows (add_domain_flags no_unicode
      (tagged_table ''World|Global Elections'')))"
    by (simp add: add_domain_flags_def tagged_table_def has_col_def Let_def)
  have c1: "is_crypto_prices ?r1"
    by (simp add: add_domain_flags_def tagged_table_def has_col_def Let_def
        set_flags_sel tagged_crypto_prices)
  have c2: "is_global_elections ?r2"
    by (simp add: add_domain_flags_def tagged_table_def has_col_def Let_def
        set_flags_sel tagged_global_elections)
  from tag_flags_nested [OF m1] c1 have "is_crypto ?r1" by blast
  moreover from tag_flags_nested [OF m2] c2 have "is_elections ?r2" by blast
  ultimately show ?thesis using c1 c2 by blast
qed

text \<open>Without the tag column no label is derived: the table gets the nine flag columns
  only, and the \<open>domain\<close> field of its rows is left as it was.\<close>

lemma no_tags_no_domain:
  assumes "\<not> has_col df ''event_tags_labels''"
  shows "columns (add_domain_flags uni df) = columns df \<union> flag_columns"
    and "map domain (rows (add_domain_flags uni df)) = map domain (rows df)"
  using assms by (simp_all add: add_domain_flags_def clear_flags_def)

section \<open>Properties of the quality score\<close>

lemma fold_max_ge: "x \<in> set (a # xs) \<Longrightarrow> x \<le> fold max xs (a::real)"
proof -
  assume "x \<in> set (a # xs)"
  then have "x \<le> Max (set (a # xs))" by (intro Max_ge) simp_all
  then show ?thesis by (simp only: Max.set_eq_fold)
qed

lemma series_max_ge:
  assumes "x \<in> set xs"
  obtains m where "series_max xs = Some m" "x \<le> m"
proof (cases xs)
  case Nil
  with assms show ?thesis by simp
next
  case (Cons a as)
  with assms fold_max_ge [of x a as] that show ?thesis by simp
qed

lemma liq_score_range:
  assumes "r \<in> set (rows df)" and "0 \<le> liq_filled df r"
  obtains s where "liq_score df r = Some s" "0 \<le> s" "s \<le> 1"
proof -
  from assms(1) have "liq_filled df r \<in> set (map (liq_filled df) (rows df))" by simp
  then obtain m where m: "max_liq df = Some m" and le: "liq_filled df r \<le> m"
    unfolding max_liq_def by (rule series_max_ge)
  show thesis
  proof (cases "0 < m")
    case False
    with m that show ?thesis by (simp add: liq_score_def)
  next
    case True
    let ?l = "liq_filled df r"
    have s: "liq_score df r = Some (ln (1 + ?l) / ln (1 + m))"
      using m True assms(2) by (simp add: liq_score_def log1p_def cell_op_def)
    have pos: "0 < ln (1 + m)" using True by simp
    have a: "0 \<le> ln (1 + ?l)" using assms(2) by simp
    have b: "ln (1 + ?l) \<le> ln (1 + m)" using le assms(2) by simp
    from pos a b have "0 \<le> ln (1 + ?l) / ln (1 + m)" "ln (1 + ?l) / ln (1 + m) \<le> 1"
      by simp_all
    with s that show ?thesis by blast
  qed
qed

lemma vol_score_range: "0 \<le> vol_filled df r \<Longrightarrow> 0 \<le> vol_score df r \<and> vol_score df r \<le> 1"
  by (simp add: vol_score_def)

lemma spread_score_range: "0 \<le> spread_score df r \<and> spread_score df r \<le> 1"
  by (simp add: spread_score_def Let_def)

lemma time_score_range: "0 \<le> time_score df r \<and> time_score df r \<le> 1"
  by (simp add: time_score_def Let_def)

lemma quality_at_range:
  assumes "r \<in> set (rows df)" and "0 \<le> liq_filled df r" and "0 \<le> vol_filled df r"
  shows "\<exists>q. quality_at df r = Some q \<and> 0 \<le> q \<and> q \<le> 1"
proof -
  from assms(1,2) obtain s where s: "liq_score df r = Some s" "0 \<le> s" "s \<le> 1"
    by (rule liq_score_range)
  have v: "0 \<le> vol_score df r" "vol_score df r \<le> 1"
    using vol_score_range [OF assms(3)] by simp_all
  have p: "0 \<le> spread_score df r" "spread_score df r \<le> 1"
    using spread_score_range [of df r] by simp_all
  have t: "0 \<le> time_score df r" "time_score df r \<le> 1"
    using time_score_range [of df r] by simp_all
  let ?q = "35 / 100 * s + (30 / 100 * vol_score df r + 20 / 100 * spread_score df r
             + 15 / 100 * time_score df r)"
  have q: "quality_at df r = Some ?q"
    using s(1) by (simp add: quality_at_def cell_op_def fillna_def)
  have "0 \<le> ?q" "?q \<le> 1" using s(2,3) v p t by linarith+
  with q show ?thesis by blast
qed

lemma quality_at_zero:
  assumes "r \<in> set (rows df)" and "liq_filled df r = 0" and "vol_filled df r = 0"
    and "get_col df ''spread'' spread None r = None"
    and "get_col df ''time_to_resolution_days'' time_to_resolution_days None r = None"
  shows "quality_at df r = Some 0"
proof -
  from assms(1) have "liq_filled df r \<in> set (map (liq_filled df) (rows df))" by simp
  then obtain m where m: "max_liq df = Some m"
    unfolding max_liq_def by (rule series_max_ge)
  have l: "liq_score df r = Some 0"
    using m assms(2) by (simp add: liq_score_def log1p_def cell_op_def)
  have v: "vol_score df r = 0" using assms(3) by (simp add: vol_score_def)
  have p: "spread_score df r = 0" using assms(4) by (simp add: spread_score_def fillna_def)
  have t: "time_score df r = 0" using assms(5) by (simp add: time_score_def fillna_def)
  show ?thesis by (simp add: quality_at_def l v p t cell_op_def fillna_def)
qed

text \<open>
  Claim C2. For every row of the table whose liquidity and 24h volume, after the missing
  values are filled with 0, are not negative, the quality score is a number (not NaN) in
  \<open>[0, 1]\<close>; and a row with liquidity 0, volume 0, spread missing and time to resolution
  missing scores exactly 0.
\<close>

theorem quality_score_range:
  assumes "i < length (rows df)"
    and "0 \<le> liq_filled df (rows df ! i)" and "0 \<le> vol_filled df (rows df ! i)"
  shows "(\<exists>q. compute_quality_score df ! i = Some q \<and> 0 \<le> q \<and> q \<le> 1) \<and>
         (liq_filled df (rows df ! i) = 0 \<and> vol_filled df (rows df ! i) = 0 \<and>
          get_col df ''spread'' spread None (rows df ! i) = None \<and>
          get_col df ''time_to_resolution_days'' time_to_resolution_days None (rows df ! i)
            = None
          \<longrightarrow> compute_quality_score df ! i = Some 0)"
proof -
  from assms(1) have r: "rows df ! i \<in> set (rows df)" by simp
  from assms(1) have c: "compute_quality_score df ! i = quality_at df (rows df ! i)"
    by (simp add: compute_quality_score_def)
  show ?thesis
    unfolding c using quality_at_range [OF r assms(2,3)] quality_at_zero [OF r] by blast
qed

theorem quality_score_range_witness:
  "(\<exists>q. compute_quality_score scored_table ! 0 = Some q \<and> 0 \<le> q \<and> q \<le> 1) \<and>
   compute_quality_score scored_table ! 1 = Some 0"
proof -
  have l: "0 < length (rows scored_table)" "1 < length (rows scored_table)"
    by (simp_all add: scored_table_def)
  have a: "0 \<le> liq_filled scored_table (rows scored_table ! 0)"
    "0 \<le> vol_filled scored_table (rows scored_table ! 0)"
    by (simp_all add: scored_table_def liq_filled_def vol_filled_def get_col_def has_col_def
        fillna_def)
  have b: "liq_filled scored_table (rows scored_table ! 1) = 0"
    "vol_filled scored_table (rows scored_table ! 1) = 0"
    "get_col scored_table ''spread'' spread None (rows scored_table ! 1) = None"
    "get_col scored_table ''time_to_resolution_days'' time_to_resolution_days None
       (rows scored_table ! 1) = None"
    by (simp_all add: scored_table_def liq_filled_def vol_filled_def get_col_def has_col_def
        fillna_def blank_row_def)
  from quality_score_range [OF l(1) a]
  have "\<exists>q. compute_quality_score scored_table ! 0 = Some q \<and> 0 \<le> q \<and> q \<le> 1" by blast
  moreover from quality_score_range [OF l(2)] b
  have "compute_quality_score scored_table ! 1 = Some 0" by simp
  ultimately show ?thesis by blast
qed

section \<open>Properties of the global filters\<close>

lemma has_col_keep: "has_col (keep p df) c = has_col df c"
  by (simp add: has_col_def keep_def)

lemma get_flag_keep: "get_flag (keep p df) c f d = get_flag df c f d"
  by (simp add: get_flag_def has_col_keep fun_eq_iff)

lemma tradeable_mask_keep: "tradeable_mask (keep p df) = tradeable_mask df"
  by (simp add: tradeable_mask_def get_flag_keep fun_eq_iff)

lemma keep_keep: "keep p (keep p df) = keep p df"
  by (simp add: keep_def)

text \<open>
  Claim C8. The tradeable-only filter is idempotent: run on its own result it returns that
  result again, and where it raises (a table with none of the four flag columns) it raises
  the first time.
\<close>

theorem tradeable_idempotent:
  "(case filter_tradeable df of Inl e \<Rightarrow> Inl e | Inr df' \<Rightarrow> filter_tradeable df')
     = filter_tradeable df"
  by (simp add: filter_tradeable_def has_col_keep tradeable_mask_keep keep_keep)

theorem tradeable_idempotent_witness:
  "filter_tradeable flagged_table = Inr (flagged_table\<lparr>rows := [hd (rows flagged_table)]\<rparr>) \<and>
   filter_tradeable (flagged_table\<lparr>rows := [hd (rows flagged_table)]\<rparr>)
     = Inr (flagged_table\<lparr>rows := [hd (rows flagged_table)]\<rparr>)"
proof -
  have a: "filter_tradeable flagged_table
      = Inr (flagged_table\<lparr>rows := [hd (rows flagged_table)]\<rparr>)"
    by (simp add: filter_tradeable_def flagged_table_def has_col_def keep_def
        tradeable_mask_def get_flag_def)
  from tradeable_idempotent [of flagged_table] show ?thesis
    unfolding a by simp
qed

text \<open>
  Claim C6. With no domain selected the domain filter returns the table as it is; with a
  selection that is not empty, on a table with the domain column, it keeps exactly the
  rows whose domain is one of the selected, in their order.
\<close>

theorem filter_domain_selection:
  "filter_domain [] df = df \<and>
   (has_col df ''domain'' \<and> selected \<noteq> [] \<longrightarrow>
      columns (filter_domain selected df) = columns df \<and>
      rows (filter_domain selected df) =
        filter (\<lambda>r. domain r \<in> Some ` set selected) (rows df))"
proof -
  have "isin v selected = (v \<in> Some ` set selected)" for v
    by (cases v) (auto simp: isin_def)
  then show ?thesis by (simp add: filter_domain_def keep_def)
qed

theorem filter_domain_selection_witness:
  "filter_domain [] domain_table = domain_table \<and>
   rows (filter_domain [''Politics'', ''Tech''] domain_table)
     = [blank_row\<lparr>domain := Some ''Politics''\<rparr>]"
proof -
  have c: "has_col domain_table ''domain''"
    by (simp add: domain_table_def has_col_def)
  have "rows (filter_domain [''Politics'', ''Tech''] domain_table) =
        filter (\<lambda>r. domain r \<in> Some ` set [''Politics'', ''Tech'']) (rows domain_table)"
    using filter_domain_selection [of domain_table "[''Politics'', ''Tech'']"] c by blast
  also have "\<dots> = [blank_row\<lparr>domain := Some ''Politics''\<rparr>]"
    by (simp add: domain_table_def)
  finally show ?thesis
    using filter_domain_selection [of domain_table "[''Politics'', ''Tech'']"] by blast
qed

section \<open>Properties of the time to resolution\<close>

lemma days_until_Some:
  "days_until now (Some t) = Some (real_of_int (t - now) / (86400 * 10 ^ 9))"
  by (simp add: days_until_def)

lemma days_until_negative: "days_until now (Some t) = Some d \<Longrightarrow> (d < 0) = (t < now)"
  by (auto simp: days_until_def divide_less_0_iff)

lemma add_time_nth:
  "i < length (rows df) \<Longrightarrow>
   time_to_resolution_days (rows (add_time_to_resolution now df) ! i) =
     (case end_column df of None \<Rightarrow> None | Some end \<Rightarrow> days_until now (end (rows df ! i)))"
  by (simp add: add_time_to_resolution_def)

text \<open>
  Claim C5, as the code has it. The end date is taken from one column for the whole table:
  \<open>market_endDateIso\<close> if the table has that column, else \<open>market_endDate\<close>, else
  \<open>event_endDate\<close>. The time to resolution of a record is its value in that column minus
  \<open>now\<close>, in days; it is missing when the table has none of the three columns and when
  the record's value in the chosen column is missing; it is negative exactly when the end
  date is before \<open>now\<close>. It agrees with the record-by-record reading whenever the
  record's value in the chosen column is present.
\<close>

theorem time_to_resolution_by_column:
  assumes "i < length (rows df)"
  shows "time_to_resolution_days (rows (add_time_to_resolution now df) ! i) =
      (if has_col df ''market_endDateIso''
       then days_until now (market_endDateIso (rows df ! i))
       else if has_col df ''market_endDate''
       then days_until now (market_endDate (rows df ! i))
       else if has_col df ''event_endDate''
       then days_until now (event_endDate (rows df ! i))
       else None) \<and>
     days_until now None = None \<and>
     (\<forall>t. days_until now (Some t) = Some (real_of_int (t - now) / (86400 * 10 ^ 9))) \<and>
     (\<forall>t d. days_until now (Some t) = Some d \<longrightarrow> (d < 0) = (t < now)) \<and>
     ((case end_column df of None \<Rightarrow> True | Some end \<Rightarrow> end (rows df ! i) \<noteq> None) \<longrightarrow>
        time_to_resolution_days (rows (add_time_to_resolution now df) ! i) =
          per_record_time_to_resolution now df (rows df ! i))"
proof (intro conjI allI impI)
  show "time_to_resolution_days (rows (add_time_to_resolution now df) ! i) =
      (if has_col df ''market_endDateIso''
       then days_until now (market_endDateIso (rows df ! i))
       else if has_col df ''market_endDate''
       then days_until now (market_endDate (rows df ! i))
       else if has_col df ''event_endDate''
       then days_until now (event_endDate (rows df ! i))
       else None)"
    using assms by (simp add: add_time_nth end_column_def)
next
  show "days_until now None = None" by (simp add: days_until_def)
next
  fix t show "days_until now (Some t) = Some (real_of_int (t - now) / (86400 * 10 ^ 9))"
    by (rule days_until_Some)
next
  fix t d assume "days_until now (Some t) = Some d"
  then show "(d < 0) = (t < now)" by (rule days_until_negative)
next
  assume "case end_column df of None \<Rightarrow> True | Some end \<Rightarrow> end (rows df ! i) \<noteq> None"
  then show "time_to_resolution_days (rows (add_time_to_resolution now df) ! i) =
          per_record_time_to_resolution now df (rows df ! i)"
    using assms
    by (auto simp: add_time_nth end_column_def per_record_time_to_resolution_def
        per_record_resolution_def present_def days_until_def split: if_splits)
qed

text \<open>
  Claim C5 as stated, record by record, fails: in a table with all three columns, a record
  without \<open>market_endDateIso\<close> whose \<open>market_endDate\<close> is 30 days after \<open>now\<close> gets a
  missing time to resolution, not 30 days.
\<close>

theorem per_record_priority_counterexample:
  "time_to_resolution_days (rows (add_time_to_resolution 0 dated_table) ! 0) = None \<and>
   per_record_time_to_resolution 0 dated_table (rows dated_table ! 0) = Some 30"
  by (simp add: add_time_to_resolution_def dated_table_def end_column_def has_col_def
      per_record_time_to_resolution_def per_record_resolution_def present_def days_until_def
      blank_row_def)

theorem time_to_resolution_by_column_witness:
  "time_to_resolution_days (rows (add_time_to_resolution 0 iso_dated_table) ! 0) = Some 30 \<and>
   time_to_resolution_days (rows (add_time_to_resolution 0 iso_dated_table) ! 1) = Some (- 1) \<and>
   per_record_time_to_resolution 0 iso_dated_table (rows iso_dated_table ! 1) = Some (- 1)"
proof -
  have l: "0 < length (rows iso_dated_table)" "1 < length (rows iso_dated_table)"
    by (simp_all add: iso_dated_table_def)
  have c: "has_col iso_dated_table ''market_endDateIso''"
    by (simp add: iso_dated_table_def has_col_def)
  have e: "end_column iso_dated_table = Some market_endDateIso"
    using c by (simp add: end_column_def)
  have a: "time_to_resolution_days (rows (add_time_to_resolution 0 iso_dated_table) ! 0)
      = Some 30"
    using time_to_resolution_by_column [OF l(1), of 0] c
    by (simp add: iso_dated_table_def days_until_def)
  have b: "time_to_resolution_days (rows (add_time_to_resolution 0 iso_dated_table) ! 1)
      = Some (- 1)"
    using time_to_resolution_by_column [OF l(2), of 0] c
    by (simp add: iso_dated_table_def days_until_def)
  have v: "market_endDateIso (rows iso_dated_table ! 1) \<noteq> None"
    by (simp add: iso_dated_table_def)
  have "(case end_column iso_dated_table of None \<Rightarrow> True
           | Some end \<Rightarrow> end (rows iso_dated_table ! 1) \<noteq> None) \<longrightarrow>
      time_to_resolution_days (rows (add_time_to_resolution 0 iso_dated_table) ! 1) =
      per_record_time_to_resolution 0 iso_dated_table (rows iso_dated_table ! 1)"
    using time_to_resolution_by_column [OF l(2), of 0] by blast
  with e v have "time_to_resolution_days (rows (add_time_to_resolution 0 iso_dated_table) ! 1) =
      per_record_time_to_resolution 0 iso_dated_table (rows iso_dated_table ! 1)"
    by simp
  with a b show ?thesis by simp
qed

section \<open>The clock and the determinism of a run\<close>



























end
